theory Spec2Isabelle
  imports
    Complex_Main
    "HOL-Library.Char_ord"
    "HOL-Library.List_Lexorder"
    "HOL-Library.Product_Lexorder"
    "HOL-Library.Multiset"
begin

section \<open>Entity models (src/tudu/models.py)\<close>

text \<open>
  Python strings are modelled as \<^typ>\<open>string\<close>, Python's unbounded integers as
  \<^typ>\<open>int\<close>. The wall clock \<^verbatim>\<open>datetime.now().isoformat()\<close> is an effect: a
  function receives the readings it is going to take as a \<open>clock\<close>, the k-th call of
  \<^verbatim>\<open>datetime.now()\<close> inside the function returning \<open>clk k\<close>.
\<close>

type_synonym clock = "nat \<Rightarrow> string"

datatype TaskStatus = TODO | IN_PROGRESS | DONE | CANCELLED

fun status_value :: "TaskStatus \<Rightarrow> string" where
  "status_value TODO = ''todo''"
| "status_value IN_PROGRESS = ''in_progress''"
| "status_value DONE = ''done''"
| "status_value CANCELLED = ''cancelled''"

record Task =
  title :: string
  project_id :: string
  story_points :: int
  status :: TaskStatus
  description :: string
  tags :: "string list"
  id_t :: string
  created_at :: string
  updated_at :: string
  completed_at :: "string option"
  position :: int

record Project =
  name :: string
  description_p :: string
  id_p :: string
  created_at_p :: string
  color :: string

definition is_complete :: "Task \<Rightarrow> bool" where
  "is_complete t = (status t = DONE \<or> status t = CANCELLED)"

text \<open>
  \<^verbatim>\<open>toggle_status\<close> reads the clock once when the task was DONE (for \<open>updated_at\<close>)
  and twice otherwise (for \<open>completed_at\<close>, then for \<open>updated_at\<close>).
\<close>

definition toggle_status :: "clock \<Rightarrow> Task \<Rightarrow> Task" where
  "toggle_status clk t =
     (if status t = DONE
      then t\<lparr>status := TODO, completed_at := None, updated_at := clk 0\<rparr>
      else t\<lparr>status := DONE, completed_at := Some (clk 0), updated_at := clk 1\<rparr>)"

fun cycle :: "TaskStatus \<Rightarrow> TaskStatus" where
  "cycle TODO = IN_PROGRESS"
| "cycle IN_PROGRESS = DONE"
| "cycle DONE = TODO"
| "cycle CANCELLED = TODO"

definition cycle_status :: "clock \<Rightarrow> Task \<Rightarrow> Task" where
  "cycle_status clk t =
     (let s = cycle (status t) in
      if s = DONE
      then t\<lparr>status := s, completed_at := Some (clk 0), updated_at := clk 1\<rparr>
      else t\<lparr>status := s, completed_at := None, updated_at := clk 0\<rparr>)"

subsection \<open>Dictionaries and serialisation\<close>

text \<open>
  The values a Python \<^verbatim>\<open>dict\<close> of this program holds (and JSON carries). A dict is an
  association list in insertion order; \<^verbatim>\<open>d[k]\<close> and \<^verbatim>\<open>d.get(k, default)\<close> look the
  key up with \<^const>\<open>map_of\<close>.
\<close>

datatype pyval =
    VNone
  | VBool bool
  | VInt int
  | VStr string
  | VList "pyval list"
  | VDict "(string \<times> pyval) list"

type_synonym pydict = "(string \<times> pyval) list"

text \<open>
  Exceptions are values. \<open>IllTyped\<close> is not a Python exception: the records above carry
  the types the dataclasses annotate, and Python's \<^verbatim>\<open>from_dict\<close> stores whatever value
  the dict holds without checking it. A dict whose value has another type than the
  annotated one yields a Python object outside the annotations, which the record cannot
  hold; the model reports \<open>IllTyped\<close> with the key there.
\<close>

datatype error =
    KeyError string
  | ValueError
  | TypeError
  | InvalidToken
  | UnicodeDecodeError
  | JSONDecodeError
  | OverflowError
  | ZeroDivisionError
  | IllTyped string

definition bind_err :: "error + 'a \<Rightarrow> ('a \<Rightarrow> error + 'b) \<Rightarrow> error + 'b" where
  "bind_err m f = (case m of Inl e \<Rightarrow> Inl e | Inr x \<Rightarrow> f x)"

definition dict_item :: "pydict \<Rightarrow> string \<Rightarrow> error + pyval" where
  "dict_item d k = (case map_of d k of None \<Rightarrow> Inl (KeyError k) | Some v \<Rightarrow> Inr v)"

definition dict_get :: "pydict \<Rightarrow> string \<Rightarrow> pyval \<Rightarrow> pyval" where
  "dict_get d k dflt = (case map_of d k of None \<Rightarrow> dflt | Some v \<Rightarrow> v)"

fun as_str :: "string \<Rightarrow> pyval \<Rightarrow> error + string" where
  "as_str k (VStr s) = Inr s"
| "as_str k v = Inl (IllTyped k)"

fun as_int :: "string \<Rightarrow> pyval \<Rightarrow> error + int" where
  "as_int k (VInt i) = Inr i"
| "as_int k v = Inl (IllTyped k)"

fun as_opt_str :: "string \<Rightarrow> pyval \<Rightarrow> error + string option" where
  "as_opt_str k VNone = Inr None"
| "as_opt_str k (VStr s) = Inr (Some s)"
| "as_opt_str k v = Inl (IllTyped k)"

fun str_items :: "pyval list \<Rightarrow> string list option" where
  "str_items [] = Some []"
| "str_items (VStr s # vs) = map_option ((#) s) (str_items vs)"
| "str_items (v # vs) = None"

fun as_str_list :: "string \<Rightarrow> pyval \<Rightarrow> error + string list" where
  "as_str_list k (VList vs) =
     (case str_items vs of None \<Rightarrow> Inl (IllTyped k) | Some xs \<Rightarrow> Inr xs)"
| "as_str_list k v = Inl (IllTyped k)"

text \<open>\<^verbatim>\<open>TaskStatus(value)\<close>: the member with that value, or ValueError.\<close>

definition TaskStatus_of :: "pyval \<Rightarrow> error + TaskStatus" where
  "TaskStatus_of v =
     (if v = VStr ''todo'' then Inr TODO
      else if v = VStr ''in_progress'' then Inr IN_PROGRESS
      else if v = VStr ''done'' then Inr DONE
      else if v = VStr ''cancelled'' then Inr CANCELLED
      else Inl ValueError)"

definition opt_val :: "string option \<Rightarrow> pyval" where
  "opt_val x = (case x of None \<Rightarrow> VNone | Some s \<Rightarrow> VStr s)"

definition Task_to_dict :: "Task \<Rightarrow> pydict" where
  "Task_to_dict t =
     [(''id'', VStr (id_t t)),
      (''title'', VStr (title t)),
      (''project_id'', VStr (project_id t)),
      (''story_points'', VInt (story_points t)),
      (''status'', VStr (status_value (status t))),
      (''description'', VStr (description t)),
      (''tags'', VList (map VStr (tags t))),
      (''created_at'', VStr (created_at t)),
      (''updated_at'', VStr (updated_at t)),
      (''completed_at'', opt_val (completed_at t)),
      (''position'', VInt (position t))]"

text \<open>
  \<^verbatim>\<open>Task.from_dict\<close> evaluates the keyword arguments in the order written: the three
  subscripts raise KeyError, \<^verbatim>\<open>TaskStatus(...)\<close> raises ValueError, and the two defaults
  \<^verbatim>\<open>datetime.now().isoformat()\<close> are computed whether or not the key is present.
\<close>

definition Task_from_dict :: "clock \<Rightarrow> pydict \<Rightarrow> error + Task" where
  "Task_from_dict clk data =
     bind_err (bind_err (dict_item data ''id'') (as_str ''id'')) (\<lambda>v_id.
     bind_err (bind_err (dict_item data ''title'') (as_str ''title'')) (\<lambda>v_title.
     bind_err (bind_err (dict_item data ''project_id'') (as_str ''project_id'')) (\<lambda>v_project_id.
     bind_err (as_int ''story_points'' (dict_get data ''story_points'' (VInt 1))) (\<lambda>v_story_points.
     bind_err (TaskStatus_of (dict_get data ''status'' (VStr ''todo''))) (\<lambda>v_status.
     bind_err (as_str ''description'' (dict_get data ''description'' (VStr []))) (\<lambda>v_description.
     bind_err (as_str_list ''tags'' (dict_get data ''tags'' (VList []))) (\<lambda>v_tags.
     bind_err (as_str ''created_at'' (dict_get data ''created_at'' (VStr (clk 0)))) (\<lambda>v_created_at.
     bind_err (as_str ''updated_at'' (dict_get data ''updated_at'' (VStr (clk 1)))) (\<lambda>v_updated_at.
     bind_err (as_opt_str ''completed_at'' (dict_get data ''completed_at'' VNone)) (\<lambda>v_completed_at.
     bind_err (as_int ''position'' (dict_get data ''position'' (VInt 0))) (\<lambda>v_position.
     Inr \<lparr>title = v_title, project_id = v_project_id, story_points = v_story_points,
          status = v_status, description = v_description, tags = v_tags, id_t = v_id,
          created_at = v_created_at, updated_at = v_updated_at,
          completed_at = v_completed_at, position = v_position\<rparr>)))))))))))"

definition Project_to_dict :: "Project \<Rightarrow> pydict" where
  "Project_to_dict p =
     [(''id'', VStr (id_p p)),
      (''name'', VStr (name p)),
      (''description'', VStr (description_p p)),
      (''created_at'', VStr (created_at_p p)),
      (''color'', VStr (color p))]"

definition Project_from_dict :: "clock \<Rightarrow> pydict \<Rightarrow> error + Project" where
  "Project_from_dict clk data =
     bind_err (bind_err (dict_item data ''id'') (as_str ''id'')) (\<lambda>v_id.
     bind_err (bind_err (dict_item data ''name'') (as_str ''name'')) (\<lambda>v_name.
     bind_err (as_str ''description'' (dict_get data ''description'' (VStr []))) (\<lambda>v_description.
     bind_err (as_str ''created_at'' (dict_get data ''created_at'' (VStr (clk 0)))) (\<lambda>v_created_at.
     bind_err (as_str ''color'' (dict_get data ''color'' (VStr ''#61afef''))) (\<lambda>v_color.
     Inr \<lparr>name = v_name, description_p = v_description, id_p = v_id,
          created_at_p = v_created_at, color = v_color\<rparr>)))))"

section \<open>Key manager (src/tudu/storage.py, \<open>_get_or_create_key\<close>)\<close>

type_synonym bytes = string

text \<open>
  The data directory holds the two files \<^verbatim>\<open>.tudu_key\<close> and \<^verbatim>\<open>.tudu_salt\<close> (absent, or
  present with some content). Writing into a directory that is not writable raises
  OSError. The primitives of the libraries are parameters: the fresh output of
  \<^verbatim>\<open>Fernet.generate_key()\<close> and of \<^verbatim>\<open>os.urandom(16)\<close>, PBKDF2-HMAC-SHA256 (32 bytes,
  480000 iterations) as a function of salt and key material, and
  \<^verbatim>\<open>base64.urlsafe_b64encode\<close>. The \<^verbatim>\<open>chmod\<close> calls change no content and swallow their
  own OSError.
\<close>

datatype os_error = OSError

record data_dir =
  key_file :: "bytes option"
  salt_file :: "bytes option"
  writable :: bool

record key_lib =
  generate_key :: bytes
  urandom16 :: bytes
  pbkdf2 :: "bytes \<Rightarrow> bytes \<Rightarrow> bytes"
  urlsafe_b64encode :: "bytes \<Rightarrow> bytes"

definition read_or_create_key_file :: "key_lib \<Rightarrow> data_dir \<Rightarrow> os_error + bytes \<times> data_dir" where
  "read_or_create_key_file L d =
     (case key_file d of
        Some master_key \<Rightarrow> Inr (master_key, d)
      | None \<Rightarrow>
          if writable d then Inr (generate_key L, d\<lparr>key_file := Some (generate_key L)\<rparr>)
          else Inl OSError)"

definition read_or_create_salt_file :: "key_lib \<Rightarrow> data_dir \<Rightarrow> os_error + bytes \<times> data_dir" where
  "read_or_create_salt_file L d =
     (case salt_file d of
        Some salt \<Rightarrow> Inr (salt, d)
      | None \<Rightarrow>
          if writable d then Inr (urandom16 L, d\<lparr>salt_file := Some (urandom16 L)\<rparr>)
          else Inl OSError)"

definition get_or_create_key :: "key_lib \<Rightarrow> data_dir \<Rightarrow> os_error + bytes \<times> data_dir" where
  "get_or_create_key L d =
     (case read_or_create_key_file L d of
        Inl e \<Rightarrow> Inl e
      | Inr (master_key, d1) \<Rightarrow>
          (case read_or_create_salt_file L d1 of
             Inl e \<Rightarrow> Inl e
           | Inr (salt, d2) \<Rightarrow> Inr (urlsafe_b64encode L (pbkdf2 L salt master_key), d2)))"

section \<open>Codec (\<open>Storage._encrypt\<close>, \<open>Storage._decrypt\<close>)\<close>

text \<open>
  The Storage object holds \<^verbatim>\<open>Fernet(self._key)\<close>. Fernet, the UTF-8 codec and the
  \<^verbatim>\<open>json\<close> module are libraries the program calls; they are the fields of \<open>codec\<close>.
  \<^verbatim>\<open>Fernet.encrypt\<close> draws an initialisation vector from \<^verbatim>\<open>os.urandom\<close> and reads the
  time: both are the \<open>entropy\<close> argument. \<^verbatim>\<open>Fernet.decrypt\<close> raises InvalidToken,
  \<^verbatim>\<open>bytes.decode\<close> UnicodeDecodeError, \<^verbatim>\<open>json.loads\<close> JSONDecodeError.
\<close>

type_synonym entropy = "bytes \<times> nat"

record codec =
  fernet_encrypt :: "entropy \<Rightarrow> bytes \<Rightarrow> bytes"
  fernet_decrypt :: "bytes \<Rightarrow> error + bytes"
  utf8_encode :: "string \<Rightarrow> bytes"
  utf8_decode :: "bytes \<Rightarrow> error + string"
  json_dumps :: "pyval \<Rightarrow> string"
  json_loads :: "string \<Rightarrow> error + pyval"

definition encrypt :: "codec \<Rightarrow> entropy \<Rightarrow> pydict \<Rightarrow> bytes" where
  "encrypt c rnd data = fernet_encrypt c rnd (utf8_encode c (json_dumps c (VDict data)))"

definition decrypt :: "codec \<Rightarrow> bytes \<Rightarrow> error + pyval" where
  "decrypt c blob =
     bind_err (fernet_decrypt c blob) (\<lambda>json_bytes.
     bind_err (utf8_decode c json_bytes) (json_loads c))"

text \<open>Subscripting or calling \<^verbatim>\<open>.get\<close> on a value that is not a dict raises TypeError
  (AttributeError for \<^verbatim>\<open>.get\<close>; the subscript comes first in both \<^verbatim>\<open>from_dict\<close>).\<close>

fun as_dict :: "pyval \<Rightarrow> error + pydict" where
  "as_dict (VDict d) = Inr d"
| "as_dict v = Inl TypeError"

definition decode_task :: "codec \<Rightarrow> clock \<Rightarrow> bytes \<Rightarrow> error + Task" where
  "decode_task c clk blob =
     bind_err (decrypt c blob) (\<lambda>v. bind_err (as_dict v) (Task_from_dict clk))"

definition decode_project :: "codec \<Rightarrow> clock \<Rightarrow> bytes \<Rightarrow> error + Project" where
  "decode_project c clk blob =
     bind_err (decrypt c blob) (\<lambda>v. bind_err (as_dict v) (Project_from_dict clk))"

section \<open>Storage engine (class \<open>Storage\<close>)\<close>

text \<open>
  The database is its two tables, each the list of its rows in rowid order: a scan
  returns the rows in that order, and \<^verbatim>\<open>INSERT OR REPLACE\<close> deletes the row with the
  same primary key and appends the new row. Errors of SQLite itself (I/O, locking) are
  not modelled. Foreign keys are not enforced (the program never switches them on).
\<close>

record project_row =
  pr_id :: string
  pr_data :: bytes

record task_row =
  tr_id :: string
  tr_project_id :: string
  tr_data :: bytes

record database =
  projects :: "project_row list"
  tasks :: "task_row list"

definition insert_or_replace :: "('r \<Rightarrow> string) \<Rightarrow> 'r \<Rightarrow> 'r list \<Rightarrow> 'r list" where
  "insert_or_replace key row rows = filter (\<lambda>r. key r \<noteq> key row) rows @ [row]"

definition save_project :: "codec \<Rightarrow> entropy \<Rightarrow> Project \<Rightarrow> database \<Rightarrow> database" where
  "save_project c rnd p db =
     db\<lparr>projects := insert_or_replace pr_id
           \<lparr>pr_id = id_p p, pr_data = encrypt c rnd (Project_to_dict p)\<rparr> (projects db)\<rparr>"

definition get_project :: "codec \<Rightarrow> clock \<Rightarrow> database \<Rightarrow> string \<Rightarrow> error + Project option" where
  "get_project c clk db pid =
     (case find (\<lambda>r. pr_id r = pid) (projects db) of
        None \<Rightarrow> Inr None
      | Some row \<Rightarrow> bind_err (decode_project c clk (pr_data row)) (\<lambda>p. Inr (Some p)))"








definition save_task :: "codec \<Rightarrow> entropy \<Rightarrow> Task \<Rightarrow> database \<Rightarrow> database" where
  "save_task c rnd t db =
     db\<lparr>tasks := insert_or_replace tr_id
           \<lparr>tr_id = id_t t, tr_project_id = project_id t,
            tr_data = encrypt c rnd (Task_to_dict t)\<rparr> (tasks db)\<rparr>"

definition get_task :: "codec \<Rightarrow> clock \<Rightarrow> database \<Rightarrow> string \<Rightarrow> error + Task option" where
  "get_task c clk db tid =
     (case find (\<lambda>r. tr_id r = tid) (tasks db) of
        None \<Rightarrow> Inr None
      | Some row \<Rightarrow> bind_err (decode_task c clk (tr_data row)) (\<lambda>t. Inr (Some t)))"

text \<open>
  The list comprehension decodes the rows one after the other and stops at the first
  exception. Each \<^verbatim>\<open>Task.from_dict\<close> reads the clock twice.
\<close>

definition shift :: "nat \<Rightarrow> clock \<Rightarrow> clock" where
  "shift n clk = (\<lambda>k. clk (n + k))"

fun decode_tasks :: "codec \<Rightarrow> clock \<Rightarrow> bytes list \<Rightarrow> error + Task list" where
  "decode_tasks c clk [] = Inr []"
| "decode_tasks c clk (b # bs) =
     (case decode_task c clk b of
        Inl e \<Rightarrow> Inl e
      | Inr t \<Rightarrow>
          (case decode_tasks c (shift 2 clk) bs of
             Inl e \<Rightarrow> Inl e
           | Inr ts \<Rightarrow> Inr (t # ts)))"

text \<open>\<^verbatim>\<open>if project_id:\<close> is Python truthiness: false for None and for the empty string.\<close>

definition truthy :: "string option \<Rightarrow> bool" where
  "truthy pid = (case pid of None \<Rightarrow> False | Some s \<Rightarrow> s \<noteq> [])"

definition select_task_rows :: "database \<Rightarrow> string option \<Rightarrow> task_row list" where
  "select_task_rows db pid =
     (if truthy pid then filter (\<lambda>r. Some (tr_project_id r) = pid) (tasks db)
      else tasks db)"

text \<open>
  The sort key is a Python tuple, compared lexicographically; \<open>False < True\<close>, integers by
  value, strings lexicographically by character. \<^verbatim>\<open>list.sort\<close> is stable, as
  \<^const>\<open>sort_key\<close> is.
\<close>

definition task_sort_key :: "Task \<Rightarrow> bool \<times> int \<times> int \<times> string" where
  "task_sort_key t = (is_complete t, - story_points t, position t, created_at t)"

definition list_tasks ::
    "codec \<Rightarrow> clock \<Rightarrow> database \<Rightarrow> string option \<Rightarrow> bool \<Rightarrow> error + Task list" where
  "list_tasks c clk db pid sort_by_points =
     bind_err (decode_tasks c clk (map tr_data (select_task_rows db pid))) (\<lambda>ts.
     Inr (if sort_by_points then sort_key task_sort_key ts else ts))"

definition delete_task :: "database \<Rightarrow> string \<Rightarrow> database" where
  "delete_task db tid = db\<lparr>tasks := filter (\<lambda>r. tr_id r \<noteq> tid) (tasks db)\<rparr>"

text \<open>\<^verbatim>\<open>max\<close> over a generator: ValueError when it is empty, a left fold otherwise.\<close>

fun py_max :: "int list \<Rightarrow> error + int" where
  "py_max [] = Inl ValueError"
| "py_max (x # xs) = Inr (foldl max x xs)"

definition get_next_position :: "codec \<Rightarrow> clock \<Rightarrow> database \<Rightarrow> string \<Rightarrow> error + int" where
  "get_next_position c clk db pid =
     bind_err (list_tasks c clk db (Some pid) False) (\<lambda>ts.
     if ts = [] then Inr 0
     else bind_err (py_max (map position ts)) (\<lambda>m. Inr (m + 1)))"

text \<open>
  The statistics dict, as a record of its seven keys. \<^verbatim>\<open>done_points / total_points\<close>
  is Python's true division of two ints: it yields a float, raises ZeroDivisionError
  for a zero divisor and OverflowError when the quotient is too large for a float. The
  float is then multiplied by the int \<open>100\<close>, which cannot raise. Floats and these two
  operations belong to the Python runtime; they are the type parameter \<open>'f\<close> and the
  fields of \<open>float_lib\<close>. The percentage is a float, or the int \<open>0\<close> of the
  \<^verbatim>\<open>else\<close> branch.
\<close>

datatype 'f pynum = PInt int | PFloat 'f

record 'f float_lib =
  int_truediv :: "int \<Rightarrow> int \<Rightarrow> error + 'f"
  float_mul_int :: "'f \<Rightarrow> int \<Rightarrow> 'f"

record 'f stats =
  total_tasks :: int
  done_tasks :: int
  in_progress_tasks :: int
  todo_tasks :: int
  total_points :: int
  done_points :: int
  completion_pct :: "'f pynum"

definition get_project_stats ::
    "'f float_lib \<Rightarrow> codec \<Rightarrow> clock \<Rightarrow> database \<Rightarrow> string \<Rightarrow> error + 'f stats" where
  "get_project_stats F c clk db pid =
     bind_err (list_tasks c clk db (Some pid) False) (\<lambda>ts.
     let total = int (length ts);
         done = sum_list (map (\<lambda>t. 1) (filter (\<lambda>t. status_value (status t) = ''done'') ts));
         in_progress =
           sum_list (map (\<lambda>t. 1) (filter (\<lambda>t. status_value (status t) = ''in_progress'') ts));
         total_pts = sum_list (map story_points ts);
         done_pts =
           sum_list (map story_points (filter (\<lambda>t. status_value (status t) = ''done'') ts))
     in bind_err
          (if total_pts \<noteq> 0
           then bind_err (int_truediv F done_pts total_pts) (\<lambda>q.
                Inr (PFloat (float_mul_int F q 100)))
           else Inr (PInt 0))
          (\<lambda>pct.
           Inr \<lparr>total_tasks = total,
                done_tasks = done,
                in_progress_tasks = in_progress,
                todo_tasks = total - done - in_progress,
                total_points = total_pts,
                done_points = done_pts,
                completion_pct = pct\<rparr>))"

section \<open>The specification's wording\<close>

text \<open>
  The composite order of the specification, written from its words: incomplete tasks
  (status neither DONE nor CANCELLED) first, then more story points first, then the
  smaller position first, then the earlier creation timestamp first.
\<close>

definition incomplete :: "Task \<Rightarrow> bool" where
  "incomplete t = (status t \<noteq> DONE \<and> status t \<noteq> CANCELLED)"

definition composite_le :: "Task \<Rightarrow> Task \<Rightarrow> bool" where
  "composite_le t u =
     (if incomplete t \<noteq> incomplete u then incomplete t
      else if story_points t \<noteq> story_points u then story_points u < story_points t
      else if position t \<noteq> position u then position t < position u
      else created_at t \<le> created_at u)"

text \<open>Two tasks tie when they agree on all four keys.\<close>

definition same_keys :: "Task \<Rightarrow> Task \<Rightarrow> bool" where
  "same_keys t u =
     (incomplete t = incomplete u \<and> story_points t = story_points u
      \<and> position t = position u \<and> created_at t = created_at u)"

text \<open>
  The statistics of the specification, written from its words, for the tasks \<open>ts\<close> of
  a project and a completion percentage \<open>pct\<close>.
\<close>

definition claimed_stats :: "Task list \<Rightarrow> 'f pynum \<Rightarrow> 'f stats" where
  "claimed_stats ts pct =
     \<lparr>total_tasks = int (length ts),
      done_tasks = int (length (filter (\<lambda>t. status t = DONE) ts)),
      in_progress_tasks = int (length (filter (\<lambda>t. status t = IN_PROGRESS) ts)),
      todo_tasks = int (length ts) - int (length (filter (\<lambda>t. status t = DONE) ts))
                     - int (length (filter (\<lambda>t. status t = IN_PROGRESS) ts)),
      total_points = sum_list (map story_points ts),
      done_points = sum_list (map story_points (filter (\<lambda>t. status t = DONE) ts)),
      completion_pct = pct\<rparr>"

text \<open>The contracts of the libraries: each decoder undoes its encoder.\<close>

definition fernet_ok :: "codec \<Rightarrow> bool" where
  "fernet_ok c = (\<forall>rnd m. fernet_decrypt c (fernet_encrypt c rnd m) = Inr m)"

definition utf8_ok :: "codec \<Rightarrow> bool" where
  "utf8_ok c = (\<forall>s. utf8_decode c (utf8_encode c s) = Inr s)"

text \<open>A record is valid for the JSON library when the library parses what it prints
  for the record back to the record.\<close>

definition valid_record :: "codec \<Rightarrow> pydict \<Rightarrow> bool" where
  "valid_record c r = (json_loads c (json_dumps c (VDict r)) = Inr (VDict r))"

section \<open>A concrete library instance and a concrete store\<close>

text \<open>
  An instance of the library parameters on which the model can be run: a cipher that
  puts two bytes taken from the initialisation vector in front of the plaintext, the
  identity as UTF-8 codec, and a JSON codec that knows the dicts of the entities below
  and prints each as its id. A key derivation that concatenates salt and key material.
\<close>

definition demo_task :: "string \<Rightarrow> string \<Rightarrow> int \<Rightarrow> TaskStatus \<Rightarrow> int \<Rightarrow> string \<Rightarrow> Task" where
  "demo_task i p pts st pos created =
     \<lparr>title = i, project_id = p, story_points = pts, status = st, description = [],
      tags = [''demo''], id_t = i, created_at = created, updated_at = created,
      completed_at = (if st = DONE then Some created else None), position = pos\<rparr>"

definition t1 :: Task where "t1 = demo_task ''t1'' ''p1'' 5 TODO 0 ''2024-01-01''"
definition t2 :: Task where "t2 = demo_task ''t2'' ''p1'' 5 DONE 1 ''2024-01-02''"
definition t3 :: Task where "t3 = demo_task ''t3'' ''p1'' 13 TODO 2 ''2024-01-03''"
definition t4 :: Task where "t4 = demo_task ''t4'' ''p1'' 1 TODO 3 ''2024-01-04''"
definition t5 :: Task where "t5 = demo_task ''t5'' ''p2'' 3 IN_PROGRESS 0 ''2024-01-05''"

definition demo_project :: Project where
  "demo_project =
     \<lparr>name = ''home'', description_p = [], id_p = ''p1'', created_at_p = ''2024-01-01'',
      color = ''#61afef''\<rparr>"

definition t6 :: Task where "t6 = demo_task ''t6'' ''p3'' 3 DONE 0 ''2024-01-06''"
definition t7 :: Task where "t7 = demo_task ''t7'' ''p3'' 5 TODO 1 ''2024-01-07''"
definition t8 :: Task where "t8 = demo_task ''t8'' ''p4'' (2 ^ 1024) DONE 0 ''2024-01-08''"
definition t0 :: Task where "t0 = demo_task ''t0'' ''p4'' (1 - 2 ^ 1024) TODO 1 ''2024-01-09''"

definition demo_dicts :: "pydict list" where
  "demo_dicts =
     map Task_to_dict [t1, t2, t3, t4, t5, t6, t7, t8, t0] @ [Project_to_dict demo_project]"

definition demo_json_dumps :: "pyval \<Rightarrow> string" where
  "demo_json_dumps v =
     (case v of
        VDict d \<Rightarrow> (case map_of d ''id'' of Some (VStr s) \<Rightarrow> s | _ \<Rightarrow> [])
      | _ \<Rightarrow> [])"

definition demo_json_loads :: "string \<Rightarrow> error + pyval" where
  "demo_json_loads s =
     (case find (\<lambda>d. map_of d ''id'' = Some (VStr s)) demo_dicts of
        Some d \<Rightarrow> Inr (VDict d)
      | None \<Rightarrow> Inl JSONDecodeError)"

definition demo_codec :: codec where
  "demo_codec =
     \<lparr>fernet_encrypt = (\<lambda>rnd m. take 2 (fst rnd @ ''00'') @ m),
      fernet_decrypt = (\<lambda>b. if length b < 2 then Inl InvalidToken else Inr (drop 2 b)),
      utf8_encode = (\<lambda>s. s),
      utf8_decode = (\<lambda>b. Inr b),
      json_dumps = demo_json_dumps,
      json_loads = demo_json_loads\<rparr>"

definition demo_clock :: clock where
  "demo_clock = (\<lambda>k. ''2024-02-01'')"

definition demo_rnd :: entropy where
  "demo_rnd = (''iv'', 1700000000)"

definition demo_db :: database where
  "demo_db =
     save_task demo_codec demo_rnd t5
       (save_task demo_codec demo_rnd t4
         (save_task demo_codec demo_rnd t3
           (save_task demo_codec demo_rnd t2
             (save_task demo_codec demo_rnd t1
               (save_project demo_codec demo_rnd demo_project
                  \<lparr>projects = [], tasks = []\<rparr>)))))"

definition stats_db :: database where
  "stats_db =
     save_task demo_codec demo_rnd t7
       (save_task demo_codec demo_rnd t6 \<lparr>projects = [], tasks = []\<rparr>)"

definition huge_db :: database where
  "huge_db =
     save_task demo_codec demo_rnd t0
       (save_task demo_codec demo_rnd t8 \<lparr>projects = [], tasks = []\<rparr>)"

text \<open>
  Rationals stand in for floats: division and multiplication are exact, which is what
  floating-point arithmetic gives whenever the exact result is itself a float (as for
  \<open>3 / 8\<close> and \<open>0.375 * 100\<close>), and a quotient of magnitude \<open>2 ^ 1024\<close> or more is
  too large for a float.
\<close>

definition demo_float :: "rat float_lib" where
  "demo_float =
     \<lparr>int_truediv = (\<lambda>a b.
        if b = 0 then Inl ZeroDivisionError
        else if 2 ^ 1024 \<le> \<bar>of_int a / of_int b :: rat\<bar> then Inl OverflowError
        else Inr (of_int a / of_int b)),
      float_mul_int = (\<lambda>x n. x * of_int n)\<rparr>"

definition demo_key_lib :: key_lib where
  "demo_key_lib =
     \<lparr>generate_key = ''0123456789abcdef0123456789abcdef0123456789a='',
      urandom16 = ''0123456789abcdef'',
      pbkdf2 = (\<lambda>salt key_material. salt @ key_material),
      urlsafe_b64encode = (\<lambda>b. b)\<rparr>"

section \<open>Status mutations and \<open>completed_at\<close>\<close>

text \<open>
  Claim C9. After \<open>toggle_status\<close> and after \<open>cycle_status\<close>, whatever the task and
  its status were before, \<open>completed_at\<close> is set (to the clock reading taken at that
  moment) exactly when the resulting status is DONE, and is null for every other
  resulting status.
\<close>

theorem completed_at_iff_done:
  "completed_at (toggle_status clk t) =
     (if status (toggle_status clk t) = DONE then Some (clk 0) else None)
   \<and> completed_at (cycle_status clk t) =
     (if status (cycle_status clk t) = DONE then Some (clk 0) else None)
   \<and> ((completed_at (toggle_status clk t) \<noteq> None) = (status (toggle_status clk t) = DONE))
   \<and> ((completed_at (cycle_status clk t) \<noteq> None) = (status (cycle_status clk t) = DONE))"
  by (cases "status t") (simp_all add: toggle_status_def cycle_status_def)

section \<open>Serialisation round trip of the entities\<close>

lemma bind_err_Inr [simp]: "bind_err (Inr x) f = f x"
  by (simp add: bind_err_def)

lemma bind_err_Inl [simp]: "bind_err (Inl e) f = Inl e"
  by (simp add: bind_err_def)

lemma str_items_map_VStr [simp]: "str_items (map VStr xs) = Some xs"
  by (induction xs) simp_all

lemma TaskStatus_of_value [simp]: "TaskStatus_of (VStr (status_value s)) = Inr s"
  by (cases s) (simp_all add: TaskStatus_of_def)

lemma as_opt_str_opt_val [simp]: "as_opt_str k (opt_val x) = Inr x"
  by (cases x) (simp_all add: opt_val_def)

lemma Task_from_to_dict: "Task_from_dict clk (Task_to_dict t) = Inr t"
  by (simp add: Task_from_dict_def Task_to_dict_def dict_item_def dict_get_def)

lemma Project_from_to_dict: "Project_from_dict clk (Project_to_dict p) = Inr p"
  by (simp add: Project_from_dict_def Project_to_dict_def dict_item_def dict_get_def)

section \<open>Facts about the concrete instance\<close>

lemma demo_fields [simp]:
  "id_t (demo_task i p pts st pos cr) = i"
  "project_id (demo_task i p pts st pos cr) = p"
  "story_points (demo_task i p pts st pos cr) = pts"
  "status (demo_task i p pts st pos cr) = st"
  "position (demo_task i p pts st pos cr) = pos"
  "created_at (demo_task i p pts st pos cr) = cr"
  by (simp_all add: demo_task_def)

lemma demo_encrypt_task:
  "encrypt demo_codec demo_rnd (Task_to_dict t) = ''iv'' @ id_t t"
  by (simp add: encrypt_def demo_codec_def demo_rnd_def demo_json_dumps_def Task_to_dict_def)

lemma demo_encrypt_project:
  "encrypt demo_codec demo_rnd (Project_to_dict p) = ''iv'' @ id_p p"
  by (simp add: encrypt_def demo_codec_def demo_rnd_def demo_json_dumps_def Project_to_dict_def)

lemma demo_db_rows:
  "demo_db =
     \<lparr>projects = [\<lparr>pr_id = ''p1'', pr_data = ''ivp1''\<rparr>],
      tasks = [\<lparr>tr_id = ''t1'', tr_project_id = ''p1'', tr_data = ''ivt1''\<rparr>,
               \<lparr>tr_id = ''t2'', tr_project_id = ''p1'', tr_data = ''ivt2''\<rparr>,
               \<lparr>tr_id = ''t3'', tr_project_id = ''p1'', tr_data = ''ivt3''\<rparr>,
               \<lparr>tr_id = ''t4'', tr_project_id = ''p1'', tr_data = ''ivt4''\<rparr>,
               \<lparr>tr_id = ''t5'', tr_project_id = ''p2'', tr_data = ''ivt5''\<rparr>]\<rparr>"
  by (simp add: demo_db_def save_task_def save_project_def insert_or_replace_def
        demo_encrypt_task demo_encrypt_project t1_def t2_def t3_def t4_def t5_def
        demo_project_def)

lemma demo_loads:
  "demo_json_loads ''t1'' = Inr (VDict (Task_to_dict t1))"
  "demo_json_loads ''t2'' = Inr (VDict (Task_to_dict t2))"
  "demo_json_loads ''t3'' = Inr (VDict (Task_to_dict t3))"
  "demo_json_loads ''t4'' = Inr (VDict (Task_to_dict t4))"
  "demo_json_loads ''t5'' = Inr (VDict (Task_to_dict t5))"
  "demo_json_loads ''t6'' = Inr (VDict (Task_to_dict t6))"
  "demo_json_loads ''t7'' = Inr (VDict (Task_to_dict t7))"
  "demo_json_loads ''t8'' = Inr (VDict (Task_to_dict t8))"
  "demo_json_loads ''t0'' = Inr (VDict (Task_to_dict t0))"
  "demo_json_loads ''p1'' = Inr (VDict (Project_to_dict demo_project))"
  by (simp_all add: demo_json_loads_def demo_dicts_def Task_to_dict_def Project_to_dict_def
        t1_def t2_def t3_def t4_def t5_def t6_def t7_def t8_def t0_def demo_project_def)

lemma drop_prefix_of_length: "length xs = n \<Longrightarrow> drop n (xs @ m) = m"
  by simp

lemma demo_fernet_ok: "fernet_ok demo_codec"
proof -
  have len: "length (take 2 (iv @ ''00'')) = 2" for iv :: string
    by simp
  have "drop 2 (take 2 (iv @ ''00'') @ m) = m" for iv m :: string
    by (rule drop_prefix_of_length [OF len])
  moreover have "\<not> length (take 2 (iv @ ''00'') @ m) < 2" for iv m :: string
    by simp
  ultimately show ?thesis
    unfolding fernet_ok_def demo_codec_def by (simp del: take_append)
qed

lemma demo_utf8_ok: "utf8_ok demo_codec"
  by (simp add: utf8_ok_def demo_codec_def)

lemma demo_valid_record:
  "valid_record demo_codec (Task_to_dict t3)"
  "valid_record demo_codec (Project_to_dict demo_project)"
  by (simp_all add: valid_record_def demo_codec_def demo_loads)
    (simp_all add: demo_json_dumps_def Task_to_dict_def Project_to_dict_def t3_def
      demo_project_def demo_loads)

section \<open>Codec round trip\<close>

text \<open>
  Claim C1. For every record that is valid for the JSON library, and for whatever
  randomness the encryption draws, decrypting the encrypted record with the same
  Storage object returns the record, given that Fernet decrypts what it encrypted and
  UTF-8 decoding undoes UTF-8 encoding.
\<close>

theorem encrypt_decrypt_roundtrip:
  assumes "fernet_ok c" and "utf8_ok c" and "valid_record c r"
  shows "decrypt c (encrypt c rnd r) = Inr (VDict r)"
proof -
  let ?text = "json_dumps c (VDict r)"
  have "fernet_decrypt c (fernet_encrypt c rnd (utf8_encode c ?text)) = Inr (utf8_encode c ?text)"
    using assms(1) unfolding fernet_ok_def by blast
  moreover have "utf8_decode c (utf8_encode c ?text) = Inr ?text"
    using assms(2) unfolding utf8_ok_def by blast
  moreover have "json_loads c ?text = Inr (VDict r)"
    using assms(3) unfolding valid_record_def .
  ultimately show ?thesis
    by (simp add: decrypt_def encrypt_def)
qed

theorem encrypt_decrypt_roundtrip_witness:
  "fernet_ok demo_codec \<and> utf8_ok demo_codec \<and> valid_record demo_codec (Task_to_dict t3)
   \<and> encrypt demo_codec (''iv'', 1) (Task_to_dict t3) = ''ivt3''
   \<and> encrypt demo_codec (''xy'', 2) (Task_to_dict t3) = ''xyt3''
   \<and> decrypt demo_codec (encrypt demo_codec (''iv'', 1) (Task_to_dict t3))
       = Inr (VDict (Task_to_dict t3))
   \<and> decrypt demo_codec (encrypt demo_codec (''xy'', 2) (Task_to_dict t3))
       = Inr (VDict (Task_to_dict t3))"
proof -
  have enc: "encrypt demo_codec (''iv'', 1) (Task_to_dict t3) = ''ivt3''"
            "encrypt demo_codec (''xy'', 2) (Task_to_dict t3) = ''xyt3''"
    by (simp_all add: encrypt_def demo_codec_def demo_json_dumps_def Task_to_dict_def t3_def)
  have r1: "decrypt demo_codec (encrypt demo_codec (''iv'', 1) (Task_to_dict t3))
       = Inr (VDict (Task_to_dict t3))"
    by (rule encrypt_decrypt_roundtrip [OF demo_fernet_ok demo_utf8_ok demo_valid_record(1)])
  have r2: "decrypt demo_codec (encrypt demo_codec (''xy'', 2) (Task_to_dict t3))
       = Inr (VDict (Task_to_dict t3))"
    by (rule encrypt_decrypt_roundtrip [OF demo_fernet_ok demo_utf8_ok demo_valid_record(1)])
  show ?thesis
    using demo_fernet_ok demo_utf8_ok demo_valid_record(1) enc r1 r2 by simp
qed

section \<open>Saving and reading back an entity\<close>

lemma find_insert_or_replace:
  "find (\<lambda>r. key r = key row) (insert_or_replace key row rows) = Some row"
  unfolding insert_or_replace_def by (induction rows) simp_all

lemma decode_task_encrypt:
  assumes "fernet_ok c" and "utf8_ok c" and "valid_record c (Task_to_dict t)"
  shows "decode_task c clk (encrypt c rnd (Task_to_dict t)) = Inr t"
proof -
  have "fernet_decrypt c (fernet_encrypt c rnd (utf8_encode c (json_dumps c (VDict (Task_to_dict t)))))
          = Inr (utf8_encode c (json_dumps c (VDict (Task_to_dict t))))"
    using assms(1) unfolding fernet_ok_def by blast
  moreover have "utf8_decode c (utf8_encode c (json_dumps c (VDict (Task_to_dict t))))
          = Inr (json_dumps c (VDict (Task_to_dict t)))"
    using assms(2) unfolding utf8_ok_def by blast
  moreover have "json_loads c (json_dumps c (VDict (Task_to_dict t))) = Inr (VDict (Task_to_dict t))"
    using assms(3) unfolding valid_record_def .
  ultimately show ?thesis
    by (simp add: decode_task_def decrypt_def encrypt_def Task_from_to_dict)
qed

lemma decode_project_encrypt:
  assumes "fernet_ok c" and "utf8_ok c" and "valid_record c (Project_to_dict p)"
  shows "decode_project c clk (encrypt c rnd (Project_to_dict p)) = Inr p"
proof -
  have "fernet_decrypt c (fernet_encrypt c rnd (utf8_encode c (json_dumps c (VDict (Project_to_dict p)))))
          = Inr (utf8_encode c (json_dumps c (VDict (Project_to_dict p))))"
    using assms(1) unfolding fernet_ok_def by blast
  moreover have "utf8_decode c (utf8_encode c (json_dumps c (VDict (Project_to_dict p))))
          = Inr (json_dumps c (VDict (Project_to_dict p)))"
    using assms(2) unfolding utf8_ok_def by blast
  moreover have "json_loads c (json_dumps c (VDict (Project_to_dict p))) = Inr (VDict (Project_to_dict p))"
    using assms(3) unfolding valid_record_def .
  ultimately show ?thesis
    by (simp add: decode_project_def decrypt_def encrypt_def Project_from_to_dict)
qed

lemma get_task_save_task:
  assumes "fernet_ok c" and "utf8_ok c" and "valid_record c (Task_to_dict t)"
  shows "get_task c clk (save_task c rnd t db) (id_t t) = Inr (Some t)"
proof -
  let ?row = "\<lparr>tr_id = id_t t, tr_project_id = project_id t,
               tr_data = encrypt c rnd (Task_to_dict t)\<rparr>"
  have "find (\<lambda>r. tr_id r = tr_id ?row) (insert_or_replace tr_id ?row (tasks db)) = Some ?row"
    by (rule find_insert_or_replace)
  then have "find (\<lambda>r. tr_id r = id_t t) (tasks (save_task c rnd t db)) = Some ?row"
    by (simp add: save_task_def)
  then show ?thesis
    by (simp add: get_task_def decode_task_encrypt [OF assms])
qed

lemma get_project_save_project:
  assumes "fernet_ok c" and "utf8_ok c" and "valid_record c (Project_to_dict p)"
  shows "get_project c clk (save_project c rnd p db) (id_p p) = Inr (Some p)"
proof -
  let ?row = "\<lparr>pr_id = id_p p, pr_data = encrypt c rnd (Project_to_dict p)\<rparr>"
  have "find (\<lambda>r. pr_id r = pr_id ?row) (insert_or_replace pr_id ?row (projects db)) = Some ?row"
    by (rule find_insert_or_replace)
  then have "find (\<lambda>r. pr_id r = id_p p) (projects (save_project c rnd p db)) = Some ?row"
    by (simp add: save_project_def)
  then show ?thesis
    by (simp add: get_project_def decode_project_encrypt [OF assms])
qed

text \<open>
  Claim C10. Deserialising the serialised form of a Task or of a Project gives back the
  entity, equal in every field; hence, with libraries that decode what they encoded, a
  save followed by a get with the same id returns the saved entity, whatever the store
  held before.
\<close>

theorem from_dict_to_dict_roundtrip:
  "Task_from_dict clk (Task_to_dict t) = Inr t
   \<and> Project_from_dict clk (Project_to_dict p) = Inr p
   \<and> (fernet_ok c \<and> utf8_ok c \<and> valid_record c (Task_to_dict t)
        \<longrightarrow> get_task c clk (save_task c rnd t db) (id_t t) = Inr (Some t))
   \<and> (fernet_ok c \<and> utf8_ok c \<and> valid_record c (Project_to_dict p)
        \<longrightarrow> get_project c clk (save_project c rnd p db) (id_p p) = Inr (Some p))"
  by (simp add: Task_from_to_dict Project_from_to_dict get_task_save_task
        get_project_save_project)

theorem from_dict_to_dict_roundtrip_witness:
  "fernet_ok demo_codec \<and> utf8_ok demo_codec
   \<and> valid_record demo_codec (Task_to_dict t3)
   \<and> valid_record demo_codec (Project_to_dict demo_project)
   \<and> Task_from_dict demo_clock (Task_to_dict t3) = Inr t3
   \<and> Project_from_dict demo_clock (Project_to_dict demo_project) = Inr demo_project
   \<and> get_task demo_codec demo_clock (save_task demo_codec demo_rnd t3 demo_db) ''t3''
       = Inr (Some t3)
   \<and> get_project demo_codec demo_clock
         (save_project demo_codec demo_rnd demo_project demo_db) ''p1''
       = Inr (Some demo_project)"
  using from_dict_to_dict_roundtrip
          [of demo_clock t3 demo_project demo_codec demo_rnd demo_db]
        demo_fernet_ok demo_utf8_ok demo_valid_record
  by (simp add: t3_def demo_project_def)

section \<open>Lookups and deletion of absent ids\<close>

lemma filter_neq_absent: "x \<notin> f ` set rows \<Longrightarrow> filter (\<lambda>r. f r \<noteq> x) rows = rows"
  by (induction rows) auto

lemma find_absent: "x \<notin> f ` set rows \<Longrightarrow> find (\<lambda>r. f r = x) rows = None"
  by (auto simp add: find_None_iff)

text \<open>
  Claim C8. For an id that no row of the table carries, \<open>get_task\<close> and \<open>get_project\<close>
  return None and raise nothing, and \<open>delete_task\<close> returns the store unchanged.
\<close>

theorem absent_id_is_not_an_error:
  assumes "tid \<notin> tr_id ` set (tasks db)" and "pid \<notin> pr_id ` set (projects db)"
  shows "get_task c clk db tid = Inr None
       \<and> get_project c clk db pid = Inr None
       \<and> delete_task db tid = db"
  using assms
  by (simp add: get_task_def get_project_def delete_task_def find_absent filter_neq_absent)

theorem absent_id_is_not_an_error_witness:
  "''t9'' \<notin> tr_id ` set (tasks demo_db) \<and> ''p9'' \<notin> pr_id ` set (projects demo_db)
   \<and> get_task demo_codec demo_clock demo_db ''t9'' = Inr None
   \<and> get_project demo_codec demo_clock demo_db ''p9'' = Inr None
   \<and> delete_task demo_db ''t9'' = demo_db"
proof -
  have a: "''t9'' \<notin> tr_id ` set (tasks demo_db)"
    by (simp add: demo_db_rows)
  have b: "''p9'' \<notin> pr_id ` set (projects demo_db)"
    by (simp add: demo_db_rows)
  show ?thesis
    using absent_id_is_not_an_error [OF a b, of demo_codec demo_clock] a b by simp
qed

section \<open>Key initialisation on existing files\<close>

text \<open>
  Claim C2, as the code has it. When the key file and the salt file both exist, key
  initialisation reads them whatever their content, truncated or not: it raises
  nothing, leaves both files as they are (it never generates a new key or salt), and
  returns the key derived from exactly the bytes found.
\<close>

theorem existing_key_material_is_used_as_found:
  assumes "key_file d = Some k" and "salt_file d = Some s"
  shows "get_or_create_key L d = Inr (urlsafe_b64encode L (pbkdf2 L s k), d)"
  using assms
  by (simp add: get_or_create_key_def read_or_create_key_file_def
        read_or_create_salt_file_def)

theorem existing_key_material_is_used_as_found_witness:
  "key_file \<lparr>key_file = Some ''0123456789abcdef0123456789abcdef0123456789a='',
             salt_file = Some ''fedcba9876543210'', writable = False\<rparr>
     = Some ''0123456789abcdef0123456789abcdef0123456789a=''
   \<and> salt_file \<lparr>key_file = Some ''0123456789abcdef0123456789abcdef0123456789a='',
             salt_file = Some ''fedcba9876543210'', writable = False\<rparr>
     = Some ''fedcba9876543210''
   \<and> get_or_create_key demo_key_lib
        \<lparr>key_file = Some ''0123456789abcdef0123456789abcdef0123456789a='',
         salt_file = Some ''fedcba9876543210'', writable = False\<rparr>
     = Inr (''fedcba98765432100123456789abcdef0123456789abcdef0123456789a='',
            \<lparr>key_file = Some ''0123456789abcdef0123456789abcdef0123456789a='',
             salt_file = Some ''fedcba9876543210'', writable = False\<rparr>)"
  using existing_key_material_is_used_as_found
          [of "\<lparr>key_file = Some ''0123456789abcdef0123456789abcdef0123456789a='',
                salt_file = Some ''fedcba9876543210'', writable = False\<rparr>"
              "''0123456789abcdef0123456789abcdef0123456789a=''" "''fedcba9876543210''"
              demo_key_lib]
  by (simp add: demo_key_lib_def)

text \<open>
  The claim as the specification states it fails: a key file cut down to three bytes
  (a generated key has 44) is accepted, and a working key is derived from it.
\<close>

theorem truncated_key_file_counterexample:
  "length ''abc'' < length (generate_key demo_key_lib)
   \<and> get_or_create_key demo_key_lib
        \<lparr>key_file = Some ''abc'', salt_file = Some ''fedcba9876543210'', writable = True\<rparr>
     = Inr (''fedcba9876543210abc'',
            \<lparr>key_file = Some ''abc'', salt_file = Some ''fedcba9876543210'', writable = True\<rparr>)"
  by (simp add: get_or_create_key_def read_or_create_key_file_def
        read_or_create_salt_file_def demo_key_lib_def)

section \<open>Listing tasks in composite order\<close>

lemma composite_le_iff: "composite_le t u \<longleftrightarrow> task_sort_key t \<le> task_sort_key u"
  by (auto simp add: composite_le_def task_sort_key_def incomplete_def is_complete_def
        less_eq_prod_def)

lemma same_keys_iff: "same_keys x t \<longleftrightarrow> task_sort_key t = task_sort_key x"
  by (auto simp add: same_keys_def task_sort_key_def incomplete_def is_complete_def)

lemma list_tasks_sorted_of_unsorted:
  "list_tasks c clk db pid True
     = map_sum id (sort_key task_sort_key) (list_tasks c clk db pid False)"
  by (cases "decode_tasks c clk (map tr_data (select_task_rows db pid))")
     (simp_all add: list_tasks_def)

lemma sorted_wrt_composite_sort_key: "sorted_wrt composite_le (sort_key task_sort_key us)"
proof -
  have "sorted (map task_sort_key (sort_key task_sort_key us))"
    by (rule sorted_sort_key)
  then show ?thesis
    by (simp add: sorted_map composite_le_iff [abs_def])
qed

lemma incomplete_first:
  "sorted_wrt composite_le ts \<Longrightarrow>
     ts = filter incomplete ts @ filter (\<lambda>t. \<not> incomplete t) ts"
proof (induction ts)
  case Nil
  then show ?case by simp
next
  case (Cons t ts)
  then have tail: "ts = filter incomplete ts @ filter (\<lambda>t. \<not> incomplete t) ts"
    and first: "\<forall>u\<in>set ts. composite_le t u"
    by simp_all
  show ?case
  proof (cases "incomplete t")
    case True
    with tail show ?thesis by simp
  next
    case False
    have "\<not> incomplete u" if "u \<in> set ts" for u
    proof
      assume "incomplete u"
      with False have "composite_le t u = incomplete t"
        by (simp add: composite_le_def)
      with False first that show False by simp
    qed
    then have "filter incomplete ts = []" and "filter (\<lambda>t. \<not> incomplete t) ts = ts"
      by (simp_all add: filter_empty_conv filter_id_conv)
    with False show ?thesis by simp
  qed
qed

lemma demo_decode:
  "decode_task demo_codec clk ''ivt1'' = Inr t1"
  "decode_task demo_codec clk ''ivt2'' = Inr t2"
  "decode_task demo_codec clk ''ivt3'' = Inr t3"
  "decode_task demo_codec clk ''ivt4'' = Inr t4"
  "decode_task demo_codec clk ''ivt5'' = Inr t5"
  "decode_task demo_codec clk ''ivt6'' = Inr t6"
  "decode_task demo_codec clk ''ivt7'' = Inr t7"
  "decode_task demo_codec clk ''ivt8'' = Inr t8"
  "decode_task demo_codec clk ''ivt0'' = Inr t0"
  by (simp_all add: decode_task_def decrypt_def demo_codec_def demo_loads Task_from_to_dict)

lemma demo_keys:
  "task_sort_key t1 = (False, -5, 0, ''2024-01-01'')"
  "task_sort_key t2 = (True, -5, 1, ''2024-01-02'')"
  "task_sort_key t3 = (False, -13, 2, ''2024-01-03'')"
  "task_sort_key t4 = (False, -1, 3, ''2024-01-04'')"
  by (simp_all add: task_sort_key_def is_complete_def t1_def t2_def t3_def t4_def)

lemma demo_list_unsorted:
  "list_tasks demo_codec demo_clock demo_db (Some ''p1'') False = Inr [t1, t2, t3, t4]"
  by (simp add: list_tasks_def select_task_rows_def truthy_def demo_db_rows demo_decode)

lemma demo_list_sorted:
  "list_tasks demo_codec demo_clock demo_db (Some ''p1'') True = Inr [t3, t1, t4, t2]"
  by (simp add: list_tasks_def select_task_rows_def truthy_def demo_db_rows demo_decode
        demo_keys)

text \<open>
  Claim C4. Whatever the store holds, when \<open>list_tasks\<close> with \<open>sort_by_points\<close> true
  returns a list, every task of the list stands before every later one in the composite
  order (incomplete first, then more story points, then smaller position, then earlier
  creation timestamp, each key deciding only where the earlier ones tie); so all
  incomplete tasks come before all complete or cancelled ones. The list holds the same
  tasks as the unsorted listing, and tasks that tie on all four keys keep the order of
  the unsorted listing, which makes the result a function of the store.
\<close>

theorem list_tasks_composite_order:
  assumes "list_tasks c clk db pid True = Inr ts"
  shows "sorted_wrt composite_le ts
       \<and> ts = filter incomplete ts @ filter (\<lambda>t. \<not> incomplete t) ts
       \<and> (\<exists>us. list_tasks c clk db pid False = Inr us
                \<and> mset ts = mset us
                \<and> (\<forall>x. filter (same_keys x) ts = filter (same_keys x) us))"
proof -
  from assms obtain us where us: "list_tasks c clk db pid False = Inr us"
    and ts: "ts = sort_key task_sort_key us"
    by (cases "list_tasks c clk db pid False")
       (auto simp add: list_tasks_sorted_of_unsorted)
  have ordered: "sorted_wrt composite_le ts"
    unfolding ts by (rule sorted_wrt_composite_sort_key)
  have stable: "filter (same_keys x) ts = filter (same_keys x) us" for x
    unfolding ts same_keys_iff [abs_def] by (rule sort_key_stable)
  have "mset ts = mset us"
    unfolding ts by simp
  with us ordered incomplete_first [OF ordered] stable show ?thesis
    by blast
qed

theorem list_tasks_composite_order_witness:
  "list_tasks demo_codec demo_clock demo_db (Some ''p1'') True = Inr [t3, t1, t4, t2]
   \<and> map story_points [t3, t1, t4, t2] = [13, 5, 1, 5]
   \<and> map status [t3, t1, t4, t2] = [TODO, TODO, TODO, DONE]
   \<and> sorted_wrt composite_le [t3, t1, t4, t2]
   \<and> [t3, t1, t4, t2] = filter incomplete [t3, t1, t4, t2]
        @ filter (\<lambda>t. \<not> incomplete t) [t3, t1, t4, t2]
   \<and> (\<exists>us. list_tasks demo_codec demo_clock demo_db (Some ''p1'') False = Inr us
            \<and> mset [t3, t1, t4, t2] = mset us
            \<and> (\<forall>x. filter (same_keys x) [t3, t1, t4, t2] = filter (same_keys x) us))"
proof -
  have fields: "map story_points [t3, t1, t4, t2] = [13, 5, 1, 5]"
    "map status [t3, t1, t4, t2] = [TODO, TODO, TODO, DONE]"
    by (simp_all add: t1_def t2_def t3_def t4_def)
  show ?thesis
    using list_tasks_composite_order [OF demo_list_sorted] demo_list_sorted fields
    by blast
qed

section \<open>Project statistics\<close>

lemma status_value_done: "status_value s = ''done'' \<longleftrightarrow> s = DONE"
  by (cases s) simp_all

lemma status_value_in_progress: "status_value s = ''in_progress'' \<longleftrightarrow> s = IN_PROGRESS"
  by (cases s) simp_all

lemma sum_list_ones: "sum_list (map (\<lambda>t. 1) xs) = int (length xs)"
  by (induction xs) simp_all

lemma get_project_stats_of_listing:
  assumes "list_tasks c clk db (Some pid) False = Inr ts"
  shows "get_project_stats F c clk db pid =
     (if sum_list (map story_points ts) = 0 then Inr (claimed_stats ts (PInt 0))
      else case int_truediv F
                  (sum_list (map story_points (filter (\<lambda>t. status t = DONE) ts)))
                  (sum_list (map story_points ts)) of
             Inl e \<Rightarrow> Inl e
           | Inr q \<Rightarrow> Inr (claimed_stats ts (PFloat (float_mul_int F q 100))))"
  using assms
  by (simp add: get_project_stats_def Let_def claimed_stats_def status_value_done
        status_value_in_progress sum_list_ones bind_err_def split: sum.splits)

lemma demo_stats_rows:
  "stats_db =
     \<lparr>projects = [],
      tasks = [\<lparr>tr_id = ''t6'', tr_project_id = ''p3'', tr_data = ''ivt6''\<rparr>,
               \<lparr>tr_id = ''t7'', tr_project_id = ''p3'', tr_data = ''ivt7''\<rparr>]\<rparr>"
  "huge_db =
     \<lparr>projects = [],
      tasks = [\<lparr>tr_id = ''t8'', tr_project_id = ''p4'', tr_data = ''ivt8''\<rparr>,
               \<lparr>tr_id = ''t0'', tr_project_id = ''p4'', tr_data = ''ivt0''\<rparr>]\<rparr>"
  by (simp_all add: stats_db_def huge_db_def save_task_def insert_or_replace_def
        demo_encrypt_task t6_def t7_def t8_def t0_def)

lemma demo_claimed_stats:
  "claimed_stats [t6, t7] pct =
     \<lparr>total_tasks = 2, done_tasks = 1, in_progress_tasks = 0, todo_tasks = 1,
      total_points = 8, done_points = 3, completion_pct = pct\<rparr>"
  by (simp add: claimed_stats_def t6_def t7_def)

lemma demo_truediv:
  "int_truediv demo_float 3 8 = Inr (3 / 8)"
  "float_mul_int demo_float x n = x * of_int n"
  "int_truediv demo_float (2 ^ 1024) 1 = Inl OverflowError"
  by (simp_all add: demo_float_def)

text \<open>
  Claim C6, as the code has it. For every non-empty project id whose task rows decode
  to the tasks \<open>ts\<close>, \<open>get_project_stats\<close> computes over exactly those tasks: the number
  of tasks, the number of DONE tasks, the number of IN_PROGRESS tasks, as todo count
  the total minus those two, the sum of all story points and the sum of the story
  points of the DONE tasks. When \<open>total_points\<close> is 0 it returns them with the
  percentage 0 and divides nothing. Otherwise it returns them with the float
  \<open>done_points / total_points * 100\<close>, unless the division raises (the quotient being
  too large for a float), in which case the call raises that error.
\<close>

theorem project_stats_values:
  assumes "pid \<noteq> []"
    and "decode_tasks c clk (map tr_data (filter (\<lambda>r. tr_project_id r = pid) (tasks db)))
           = Inr ts"
  shows "get_project_stats F c clk db pid =
     (if sum_list (map story_points ts) = 0 then Inr (claimed_stats ts (PInt 0))
      else case int_truediv F
                  (sum_list (map story_points (filter (\<lambda>t. status t = DONE) ts)))
                  (sum_list (map story_points ts)) of
             Inl e \<Rightarrow> Inl e
           | Inr q \<Rightarrow> Inr (claimed_stats ts (PFloat (float_mul_int F q 100))))"
proof -
  have "list_tasks c clk db (Some pid) False = Inr ts"
    using assms by (simp add: list_tasks_def select_task_rows_def truthy_def)
  then show ?thesis
    by (rule get_project_stats_of_listing)
qed

theorem project_stats_values_witness:
  "''p3'' \<noteq> []
   \<and> decode_tasks demo_codec demo_clock
        (map tr_data (filter (\<lambda>r. tr_project_id r = ''p3'') (tasks stats_db)))
      = Inr [t6, t7]
   \<and> map story_points [t6, t7] = [3, 5]
   \<and> map status [t6, t7] = [DONE, TODO]
   \<and> get_project_stats demo_float demo_codec demo_clock stats_db ''p3''
       = Inr \<lparr>total_tasks = 2, done_tasks = 1, in_progress_tasks = 0, todo_tasks = 1,
              total_points = 8, done_points = 3, completion_pct = PFloat (75 / 2)\<rparr>"
proof -
  have ne: "''p3'' \<noteq> []"
    by simp
  have dec: "decode_tasks demo_codec demo_clock
        (map tr_data (filter (\<lambda>r. tr_project_id r = ''p3'') (tasks stats_db)))
      = Inr [t6, t7]"
    by (simp add: demo_stats_rows demo_decode)
  have fields: "map story_points [t6, t7] = [3, 5]" "map status [t6, t7] = [DONE, TODO]"
    by (simp_all add: t6_def t7_def)
  have sums: "sum_list (map story_points [t6, t7]) = 8"
    "sum_list (map story_points (filter (\<lambda>t. status t = DONE) [t6, t7])) = 3"
    by (simp_all add: t6_def t7_def)
  have "get_project_stats demo_float demo_codec demo_clock stats_db ''p3''
       = Inr (claimed_stats [t6, t7] (PFloat (75 / 2)))"
    using project_stats_values [OF ne dec, of demo_float]
    unfolding sums by (simp add: demo_truediv)
  with ne dec fields show ?thesis
    by (simp only: demo_claimed_stats) simp
qed

text \<open>
  The claim as the specification states it fails twice. For the empty project id the
  statistics count the tasks of every project: no task row carries the empty id, yet
  two tasks and eight points are reported. And where the quotient is too large for a
  float the call raises OverflowError instead of returning a percentage: a DONE task
  of \<open>2 ^ 1024\<close> story points beside a task of \<open>1 - 2 ^ 1024\<close> gives the total 1.
\<close>

theorem project_stats_counterexample:
  "[] \<notin> tr_project_id ` set (tasks stats_db)
   \<and> get_project_stats demo_float demo_codec demo_clock stats_db []
       = Inr \<lparr>total_tasks = 2, done_tasks = 1, in_progress_tasks = 0, todo_tasks = 1,
              total_points = 8, done_points = 3, completion_pct = PFloat (75 / 2)\<rparr>
   \<and> map story_points [t8, t0] = [2 ^ 1024, 1 - 2 ^ 1024]
   \<and> list_tasks demo_codec demo_clock huge_db (Some ''p4'') False = Inr [t8, t0]
   \<and> get_project_stats demo_float demo_codec demo_clock huge_db ''p4'' = Inl OverflowError"
proof -
  have a: "[] \<notin> tr_project_id ` set (tasks stats_db)"
    by (simp add: demo_stats_rows)
  have l: "list_tasks demo_codec demo_clock stats_db (Some []) False = Inr [t6, t7]"
    by (simp add: list_tasks_def select_task_rows_def truthy_def demo_stats_rows demo_decode)
  have sums: "sum_list (map story_points [t6, t7]) = 8"
    "sum_list (map story_points (filter (\<lambda>t. status t = DONE) [t6, t7])) = 3"
    by (simp_all add: t6_def t7_def)
  have "get_project_stats demo_float demo_codec demo_clock stats_db []
       = Inr (claimed_stats [t6, t7] (PFloat (75 / 2)))"
    using get_project_stats_of_listing [OF l, of demo_float]
    unfolding sums by (simp add: demo_truediv)
  then have b: "get_project_stats demo_float demo_codec demo_clock stats_db []
       = Inr \<lparr>total_tasks = 2, done_tasks = 1, in_progress_tasks = 0, todo_tasks = 1,
              total_points = 8, done_points = 3, completion_pct = PFloat (75 / 2)\<rparr>"
    by (simp only: demo_claimed_stats)
  have pts: "map story_points [t8, t0] = [2 ^ 1024, 1 - 2 ^ 1024]"
    by (simp add: t8_def t0_def)
  have h: "list_tasks demo_codec demo_clock huge_db (Some ''p4'') False = Inr [t8, t0]"
    by (simp add: list_tasks_def select_task_rows_def truthy_def demo_stats_rows demo_decode)
  have hsums: "sum_list (map story_points [t8, t0]) = 1"
    "sum_list (map story_points (filter (\<lambda>t. status t = DONE) [t8, t0])) = 2 ^ 1024"
    by (simp_all add: t8_def t0_def)
  have c: "get_project_stats demo_float demo_codec demo_clock huge_db ''p4'' = Inl OverflowError"
    using get_project_stats_of_listing [OF h, of demo_float]
    unfolding hsums demo_truediv by simp
  from a b pts h c show ?thesis
    by blast
qed

section \<open>Deleting a project\<close>








section \<open>Allocating the next position\<close>

lemma foldl_max_Max: "foldl max (x::int) xs = Max (insert x (set xs))"
proof (induction xs arbitrary: x)
  case Nil
  then show ?case by simp
next
  case (Cons y ys)
  have "Max (insert (max x y) (set ys)) = Max (insert x (insert y (set ys)))"
    by (cases "set ys = {}") (simp_all add: max.assoc)
  with Cons show ?case by simp
qed

lemma py_max_Max: "xs \<noteq> [] \<Longrightarrow> py_max xs = Inr (Max (set xs))"
  by (cases xs) (simp_all add: foldl_max_Max)

text \<open>
  Claim C7, as the code has it. For every non-empty project id whose task rows decode
  to the tasks \<open>ts\<close>, \<open>get_next_position\<close> returns 0 when there are none and otherwise
  one more than the greatest position among them; hence the value returned is greater
  than the position of every task the project still holds.
\<close>

theorem next_position_value:
  assumes "pid \<noteq> []"
    and "decode_tasks c clk (map tr_data (filter (\<lambda>r. tr_project_id r = pid) (tasks db)))
           = Inr ts"
  shows "get_next_position c clk db pid
           = Inr (if ts = [] then 0 else Max (position ` set ts) + 1)
       \<and> (\<forall>t\<in>set ts. \<exists>n. get_next_position c clk db pid = Inr n \<and> position t < n)"
proof -
  have listing: "list_tasks c clk db (Some pid) False = Inr ts"
    using assms by (simp add: list_tasks_def select_task_rows_def truthy_def)
  have val: "get_next_position c clk db pid
           = Inr (if ts = [] then 0 else Max (position ` set ts) + 1)"
    by (simp add: get_next_position_def listing py_max_Max)
  have "position t < (if ts = [] then 0 else Max (position ` set ts) + 1)"
    if "t \<in> set ts" for t
  proof -
    from that have "ts \<noteq> []" by auto
    moreover from that have "position t \<le> Max (position ` set ts)" by simp
    ultimately show ?thesis by simp
  qed
  with val show ?thesis by simp
qed

theorem next_position_value_witness:
  "''p1'' \<noteq> []
   \<and> decode_tasks demo_codec demo_clock
        (map tr_data (filter (\<lambda>r. tr_project_id r = ''p1'') (tasks demo_db)))
      = Inr [t1, t2, t3, t4]
   \<and> map position [t1, t2, t3, t4] = [0, 1, 2, 3]
   \<and> get_next_position demo_codec demo_clock demo_db ''p1'' = Inr 4"
proof -
  have ne: "''p1'' \<noteq> []"
    by simp
  have dec: "decode_tasks demo_codec demo_clock
        (map tr_data (filter (\<lambda>r. tr_project_id r = ''p1'') (tasks demo_db)))
      = Inr [t1, t2, t3, t4]"
    by (simp add: demo_db_rows demo_decode)
  have pos: "map position [t1, t2, t3, t4] = [0, 1, 2, 3]"
    by (simp add: t1_def t2_def t3_def t4_def)
  from next_position_value [OF ne dec] pos
  have "get_next_position demo_codec demo_clock demo_db ''p1'' = Inr 4"
    by simp
  with ne dec pos show ?thesis by simp
qed

text \<open>
  The claim as the specification states it fails twice. A position is handed out again
  once the task holding the greatest position is deleted: the project held positions
  0 to 3, and after the deletion of the task at position 3 the next position is 3 again.
  And for the empty project id the tasks of all projects are consulted: no task row
  carries the empty id, yet the result is not 0.
\<close>

theorem next_position_reuse_counterexample:
  "get_task demo_codec demo_clock demo_db ''t4'' = Inr (Some t4)
   \<and> position t4 = 3
   \<and> get_next_position demo_codec demo_clock (delete_task demo_db ''t4'') ''p1'' = Inr 3
   \<and> [] \<notin> tr_project_id ` set (tasks demo_db)
   \<and> get_next_position demo_codec demo_clock demo_db [] = Inr 4"
proof -
  have a: "get_task demo_codec demo_clock demo_db ''t4'' = Inr (Some t4)"
    by (simp add: get_task_def demo_db_rows demo_decode)
  have b: "position t4 = 3"
    by (simp add: t4_def)
  have c: "get_next_position demo_codec demo_clock (delete_task demo_db ''t4'') ''p1'' = Inr 3"
    by (simp add: get_next_position_def list_tasks_def select_task_rows_def truthy_def
          delete_task_def demo_db_rows demo_decode t1_def t2_def t3_def)
  have d: "[] \<notin> tr_project_id ` set (tasks demo_db)"
    by (simp add: demo_db_rows)
  have e: "get_next_position demo_codec demo_clock demo_db [] = Inr 4"
    by (simp add: get_next_position_def list_tasks_def select_task_rows_def truthy_def
          demo_db_rows demo_decode t1_def t2_def t3_def t4_def t5_def)
  from a b c d e show ?thesis by simp
qed

end
